theory Spec2Isabelle
  imports Main "HOL-Library.AList"
begin

section \<open>The fetch hooks of UPL (src/modules/hooks/fetch.ts)\<close>

text \<open>
  The module keeps two tables of hook entries (exact endpoint strings and RegExp
  patterns), replaces \<^verbatim>\<open>window.fetch\<close> by \<^verbatim>\<open>hookedFetch\<close> on the
  first registration, and threads every request through the pre- and post-callbacks of
  the entry its URL resolves to. The embedding below follows the source function by
  function and keeps its names.
\<close>

subsection \<open>Values of the host platform\<close>

text \<open>
  A JavaScript exception is a value. \<open>TypeError\<close> is the built-in class the source
  throws; \<open>Thrown\<close> stands for any other value a callback or the transport throws.
\<close>

datatype error = TypeError string | Thrown string

text \<open>The three states a promise can end in: fulfilled, rejected, or never settled.\<close>

datatype 'a outcome = Resolved 'a | Rejected error | Pending

type_synonym Headers = "(string \<times> string) list"

text \<open>
  \<^verbatim>\<open>init.body\<close> is a string or some other body source (Blob, FormData,
  ArrayBuffer, ...), of which only the bytes are kept.
\<close>

datatype BodyInit = BodyText string | BodyOther "nat list"

record RequestInit =
  init_method :: "string option"
  init_headers :: "Headers option"
  init_body :: "BodyInit option"
  init_other :: "(string \<times> string) list"

text \<open>
  A \<^verbatim>\<open>Request\<close> object. \<open>req_bodyUsed\<close> says that its body has been read
  already, in which case \<^verbatim>\<open>input.clone()\<close> throws a \<^verbatim>\<open>TypeError\<close>.
  \<open>req_text\<close> is what \<^verbatim>\<open>text()\<close> of a clone yields: the body text, or the
  exception it throws. \<open>req_other\<close> holds the options of the request that
  \<^verbatim>\<open>hookedFetch\<close> never reads (mode, credentials, cache, redirect, signal, ...).
\<close>

record Request =
  req_url :: string
  req_method :: string
  req_headers :: Headers
  req_bodyUsed :: bool
  req_text :: "error + string"
  req_other :: "(string \<times> string) list"

text \<open>
  The first argument of \<^verbatim>\<open>fetch\<close>: a string, a \<^verbatim>\<open>URL\<close> object (kept as
  the string its \<^verbatim>\<open>toString()\<close> returns), a \<^verbatim>\<open>Request\<close>, or any other
  value (kept as the string \<^verbatim>\<open>String(input)\<close> returns).
\<close>

datatype RequestInfo = InString string | InURL string | InRequest Request | InOther string

text \<open>
  A \<^verbatim>\<open>Response\<close> object lives in a store (a list indexed by address), since
  the post-callbacks mutate the clone they are handed and the caller receives a reference.
  \<open>text_fn\<close> is the object's \<^verbatim>\<open>text\<close> method: the native one, which reads
  the body, or the function \<^verbatim>\<open>hookTextPost\<close> assigns, which closes over the
  address of \<^verbatim>\<open>originalClone\<close> and over the text callback. A body is kept as
  its text; that a body stream can be read only once is not part of the model.
\<close>

datatype text_method = NativeText | HookedText nat "string \<Rightarrow> string outcome"

record Response =
  status :: nat
  resp_headers :: Headers
  resp_body :: string
  text_fn :: text_method

text \<open>
  The real transport, \<^verbatim>\<open>_originalFetch\<close> (the \<^verbatim>\<open>window.fetch\<close> captured when
  the module loads): a parameter of the model. It maps the arguments of one call to the
  final state of the promise it returns.
\<close>

type_synonym transport = "RequestInfo \<Rightarrow> RequestInit option \<Rightarrow> Response outcome"

text \<open>
  A RegExp object. \<open>rx_toString\<close> is the string \<^verbatim>\<open>toString()\<close> prints (source
  and flags), \<open>rx_global\<close> and \<open>rx_sticky\<close> are the flags \<^verbatim>\<open>g\<close> and
  \<^verbatim>\<open>y\<close>, \<open>rx_lastIndex\<close> is the object's mutable property \<^verbatim>\<open>lastIndex\<close>.
  The pattern's matcher is a parameter of the object: \<open>rx_match r u i\<close> is the end
  index of the match that matching \<open>u\<close> from index \<open>i\<close> finds, if it finds one.
\<close>

record RegExp =
  rx_toString :: string
  rx_global :: bool
  rx_sticky :: bool
  rx_lastIndex :: nat
  rx_match :: "string \<Rightarrow> nat \<Rightarrow> nat option"

text \<open>
  \<^verbatim>\<open>RegExp.prototype.test\<close>: the result and the object afterwards. A pattern with
  neither flag matches from index 0 and is left as it is. A pattern with the flag
  \<^verbatim>\<open>g\<close> or \<^verbatim>\<open>y\<close> matches from \<^verbatim>\<open>lastIndex\<close>; a match moves
  \<^verbatim>\<open>lastIndex\<close> to its end, a failure sets it to 0.
\<close>

definition RegExp_test :: "RegExp \<Rightarrow> string \<Rightarrow> bool \<times> RegExp" where
  "RegExp_test r u =
     (if rx_global r \<or> rx_sticky r then
        (if rx_lastIndex r > length u then (False, r\<lparr>rx_lastIndex := 0\<rparr>)
         else
           (case rx_match r u (rx_lastIndex r) of
              None \<Rightarrow> (False, r\<lparr>rx_lastIndex := 0\<rparr>)
            | Some e \<Rightarrow> (True, r\<lparr>rx_lastIndex := e\<rparr>)))
      else
        (case rx_match r u 0 of
           None \<Rightarrow> (False, r)
         | Some e \<Rightarrow> (True, r)))"

subsection \<open>Callbacks\<close>

text \<open>
  A pre-callback \<^verbatim>\<open>(input, init, original) => Promise<Response>\<close> is a function
  of the request it is handed; what it does is a tree of the interactions it has with
  the pipeline: it calls \<^verbatim>\<open>original(_input, _init)\<close> and goes on with the state of
  the promise that call returned, it writes to the console, and in the end its own
  promise is fulfilled with a response, rejected, or left pending. A callback changes
  the request by what it passes to \<^verbatim>\<open>original\<close>.
\<close>

datatype pre_action =
    CallOriginal RequestInfo "RequestInit option" "Response outcome \<Rightarrow> pre_action"
  | ConsoleError string pre_action
  | Return Response
  | Throw error
  | Hang

type_synonym HookPreCallback = "RequestInfo \<Rightarrow> RequestInit option \<Rightarrow> pre_action"

text \<open>
  A post-callback \<^verbatim>\<open>(response, original) => void\<close> runs synchronously. It is a
  function of the store and of the address of the response it is handed; what it does is
  a sequence of steps: it changes the store (mutating the response, cloning it), it calls
  \<^verbatim>\<open>original()\<close>, it returns, or it throws.
\<close>

datatype post_action =
    PostEffect "Response list \<Rightarrow> nat \<Rightarrow> Response list" post_action
  | PostNext post_action
  | PostReturn
  | PostThrow error

type_synonym HookPostCallback = "Response list \<Rightarrow> nat \<Rightarrow> post_action"

text \<open>
  A text pre-callback \<^verbatim>\<open>(body, original) => void\<close> is a function of the body it is
  handed; it calls \<^verbatim>\<open>original(newBody)\<close> any number of times and then returns or
  throws.
\<close>

datatype text_pre_action =
    TextOriginal "string option" text_pre_action
  | TextReturn
  | TextThrow error

type_synonym HookTextPreCallback = "string option \<Rightarrow> text_pre_action"

text \<open>
  A text post-callback \<^verbatim>\<open>(text, original) => void\<close> runs inside the executor of the
  promise the overridden \<^verbatim>\<open>text\<close> method returns, and \<^verbatim>\<open>original\<close> is that
  promise's \<^verbatim>\<open>resolve\<close>. All that matters of the callback is the state it leaves
  the promise in: fulfilled with the first \<^verbatim>\<open>newBody\<close> it passes, rejected with
  what it throws before, or pending.
\<close>

type_synonym HookTextPostCallback = "string \<Rightarrow> string outcome"

subsection \<open>The module's state\<close>

record HookEntry =
  pre_callback :: "HookPreCallback list"
  post_callback :: "HookPostCallback list"

text \<open>Which function \<^verbatim>\<open>window.fetch\<close> is bound to.\<close>

datatype fetch_impl = OriginalFetch | HookedFetch

text \<open>
  \<open>entriesText\<close> is the \<^verbatim>\<open>Map<string, HookEntry>\<close> in insertion order
  (\<^verbatim>\<open>get\<close> is \<^const>\<open>map_of\<close>, \<^verbatim>\<open>set\<close> is \<^const>\<open>AList.update\<close>),
  \<open>entriesRegex\<close> the array of pairs. \<open>initOnce_fired\<close> is the state of
  \<^verbatim>\<open>_initOnce\<close>. \<open>installs\<close> counts the executions of the assignment
  \<^verbatim>\<open>window.fetch = hookedFetch\<close>.
\<close>

record module_state =
  entriesText :: "(string \<times> HookEntry) list"
  entriesRegex :: "(RegExp \<times> HookEntry) list"
  initOnce_fired :: bool
  window_fetch :: fetch_impl
  installs :: nat

definition initial_state :: module_state where
  "initial_state =
     \<lparr>entriesText = [], entriesRegex = [], initOnce_fired = False,
      window_fetch = OriginalFetch, installs = 0\<rparr>"

definition init :: "module_state \<Rightarrow> module_state" where
  "init s = s\<lparr>window_fetch := HookedFetch, installs := Suc (installs s)\<rparr>"

text \<open>
  Modelled from the spec: the class \<^verbatim>\<open>Once\<close> of \<^verbatim>\<open>src/utils/once\<close> is not
  among the sources. The spec calls it a one-shot trigger, a reusable run-once primitive
  shared by all registration entry points, that fires on first use: \<^verbatim>\<open>trigger()\<close>
  runs the callback the first time it is called and does nothing afterwards.
\<close>

definition Once_trigger :: "(module_state \<Rightarrow> module_state) \<Rightarrow> module_state \<Rightarrow> module_state" where
  "Once_trigger callback s =
     (if initOnce_fired s then s else callback (s\<lparr>initOnce_fired := True\<rparr>))"

subsection \<open>Registration\<close>

text \<open>
  The endpoint argument as the run-time checks see it: a string, a RegExp, or anything
  else.
\<close>

datatype endpoint = EpString string | EpRegExp RegExp | EpOther

text \<open>
  \<^verbatim>\<open>existingEntry[1].pre_callback.push(callback)\<close> mutates the entry of the first
  pair \<^verbatim>\<open>find\<close> returned; \<open>update_first\<close> is that mutation on the array.
\<close>

fun update_first :: "('a \<Rightarrow> bool) \<Rightarrow> ('a \<Rightarrow> 'a) \<Rightarrow> 'a list \<Rightarrow> 'a list" where
  "update_first P f [] = []"
| "update_first P f (x # xs) = (if P x then f x # xs else x # update_first P f xs)"

definition same_pattern :: "RegExp \<Rightarrow> RegExp \<times> HookEntry \<Rightarrow> bool" where
  "same_pattern r x = (rx_toString (fst x) = rx_toString r)"

definition push_pre :: "HookPreCallback \<Rightarrow> HookEntry \<Rightarrow> HookEntry" where
  "push_pre callback entry = entry\<lparr>pre_callback := pre_callback entry @ [callback]\<rparr>"

definition push_post :: "HookPostCallback \<Rightarrow> HookEntry \<Rightarrow> HookEntry" where
  "push_post callback entry = entry\<lparr>post_callback := post_callback entry @ [callback]\<rparr>"

text \<open>
  A registration returns normally (\<open>Inr ()\<close>) or throws (\<open>Inl\<close>); the module's state
  is returned in both cases, since what ran before the \<^verbatim>\<open>throw\<close> stays done.
\<close>

definition hookPre ::
  "endpoint \<Rightarrow> HookPreCallback \<Rightarrow> module_state \<Rightarrow> (error + unit) \<times> module_state" where
  "hookPre ep callback s0 =
     (let s = Once_trigger init s0 in
      case ep of
        EpString e \<Rightarrow>
          (case map_of (entriesText s) e of
             None \<Rightarrow>
               (Inr (), s\<lparr>entriesText :=
                  AList.update e \<lparr>pre_callback = [callback], post_callback = []\<rparr> (entriesText s)\<rparr>)
           | Some entry \<Rightarrow>
               (Inr (), s\<lparr>entriesText :=
                  AList.update e (push_pre callback entry) (entriesText s)\<rparr>))
      | EpRegExp r \<Rightarrow>
          (case find (same_pattern r) (entriesRegex s) of
             None \<Rightarrow>
               (Inr (), s\<lparr>entriesRegex :=
                  entriesRegex s @ [(r, \<lparr>pre_callback = [callback], post_callback = []\<rparr>)]\<rparr>)
           | Some existingEntry \<Rightarrow>
               (Inr (), s\<lparr>entriesRegex :=
                  update_first (same_pattern r) (\<lambda>x. (fst x, push_pre callback (snd x)))
                    (entriesRegex s)\<rparr>))
      | EpOther \<Rightarrow> (Inl (TypeError ''Invalid endpoint type!''), s))"

definition hookPost ::
  "endpoint \<Rightarrow> HookPostCallback \<Rightarrow> module_state \<Rightarrow> (error + unit) \<times> module_state" where
  "hookPost ep callback s0 =
     (let s = Once_trigger init s0 in
      case ep of
        EpString e \<Rightarrow>
          (case map_of (entriesText s) e of
             None \<Rightarrow>
               (Inr (), s\<lparr>entriesText :=
                  AList.update e \<lparr>pre_callback = [], post_callback = [callback]\<rparr> (entriesText s)\<rparr>)
           | Some entry \<Rightarrow>
               (Inr (), s\<lparr>entriesText :=
                  AList.update e (push_post callback entry) (entriesText s)\<rparr>))
      | EpRegExp r \<Rightarrow>
          (case find (same_pattern r) (entriesRegex s) of
             None \<Rightarrow>
               (Inr (), s\<lparr>entriesRegex :=
                  entriesRegex s @ [(r, \<lparr>pre_callback = [], post_callback = [callback]\<rparr>)]\<rparr>)
           | Some existingEntry \<Rightarrow>
               (Inr (), s\<lparr>entriesRegex :=
                  update_first (same_pattern r) (\<lambda>x. (fst x, push_post callback (snd x)))
                    (entriesRegex s)\<rparr>))
      | EpOther \<Rightarrow> (Inl (TypeError ''Invalid endpoint type!''), s))"

subsection \<open>Resolution\<close>

text \<open>
  \<^verbatim>\<open>_entriesRegex.find(x => x[0].test(url))\<close>: the pairs are tested in the order
  of the array until a test succeeds; every test made may change the pattern object it
  is made on. The result is the entry found, if any, and the array afterwards.
\<close>

fun find_regex ::
  "string \<Rightarrow> (RegExp \<times> HookEntry) list \<Rightarrow> HookEntry option \<times> (RegExp \<times> HookEntry) list" where
  "find_regex url [] = (None, [])"
| "find_regex url (x # xs) =
     (case RegExp_test (fst x) url of
        (matched, r') \<Rightarrow>
          if matched then (Some (snd x), (r', snd x) # xs)
          else (case find_regex url xs of (regexMatch, xs') \<Rightarrow> (regexMatch, (r', snd x) # xs')))"

text \<open>The entry the URL resolves to, if any, and the module's state afterwards.\<close>

definition findMatchingEntry :: "module_state \<Rightarrow> string \<Rightarrow> HookEntry option \<times> module_state" where
  "findMatchingEntry s url =
     (case map_of (entriesText s) url of
        Some exactMatch \<Rightarrow> (Some exactMatch, s)
      | None \<Rightarrow>
          (case find_regex url (entriesRegex s) of
             (regexMatch, entries') \<Rightarrow> (regexMatch, s\<lparr>entriesRegex := entries'\<rparr>)))"

subsection \<open>The text adapters\<close>

text \<open>
  \<^verbatim>\<open>return original(input, init)\<close> in an async function: the callback's promise
  takes the state of the promise \<^verbatim>\<open>original\<close> returned.
\<close>

definition settle :: "Response outcome \<Rightarrow> pre_action" where
  "settle p = (case p of Resolved r \<Rightarrow> Return r | Rejected e \<Rightarrow> Throw e | Pending \<Rightarrow> Hang)"

text \<open>\<^verbatim>\<open>init?.body\<close>: absent when \<^verbatim>\<open>init\<close> is.\<close>

definition init_body_of :: "RequestInit option \<Rightarrow> BodyInit option" where
  "init_body_of ini = (case ini of None \<Rightarrow> None | Some i \<Rightarrow> init_body i)"

text \<open>
  \<^verbatim>\<open>_original(newBody)\<close>: the assignment \<^verbatim>\<open>init.body = newBody\<close> updates the
  object \<^verbatim>\<open>init\<close> that the later calls and the pipeline see.
\<close>

definition set_body :: "string option \<Rightarrow> RequestInit option \<Rightarrow> RequestInit option" where
  "set_body newBody ini =
     (case newBody of
        None \<Rightarrow> ini
      | Some b \<Rightarrow> (case ini of None \<Rightarrow> None | Some i \<Rightarrow> Some (i\<lparr>init_body := Some (BodyText b)\<rparr>)))"

text \<open>
  A promise settles once: \<^verbatim>\<open>resolve\<close> and \<^verbatim>\<open>reject\<close> have no effect on a
  promise that is settled. Where a text pre-callback calls \<^verbatim>\<open>_original\<close> more than
  once, the transport's promises are taken to settle in the order of the calls.
\<close>

definition first_settled :: "Response outcome \<Rightarrow> Response outcome \<Rightarrow> Response outcome" where
  "first_settled p q = (case p of Pending \<Rightarrow> q | Resolved r \<Rightarrow> Resolved r | Rejected e \<Rightarrow> Rejected e)"

text \<open>
  The executor of \<^verbatim>\<open>new Promise((resolve, reject) => ...)\<close> in \<^verbatim>\<open>hookTextPre\<close>,
  along the steps of the text callback; \<open>p\<close> is the state the promise will take from
  the calls of \<^verbatim>\<open>_original\<close> made so far. An exception of the callback reaches
  \<^verbatim>\<open>reject\<close> before any transport promise settles.
\<close>

fun text_pre_run ::
  "text_pre_action \<Rightarrow> RequestInfo \<Rightarrow> RequestInit option \<Rightarrow> Response outcome \<Rightarrow> pre_action" where
  "text_pre_run (TextOriginal newBody k) input ini p =
     CallOriginal input (set_body newBody ini)
       (\<lambda>q. text_pre_run k input (set_body newBody ini) (first_settled p q))"
| "text_pre_run TextReturn input ini p = settle p"
| "text_pre_run (TextThrow e) input ini p = Throw e"

text \<open>The raw pre-callback that \<^verbatim>\<open>hookTextPre\<close> registers.\<close>

definition textPreCallback :: "HookTextPreCallback \<Rightarrow> HookPreCallback" where
  "textPreCallback callback input ini =
     (case init_body_of ini of
        Some (BodyOther b) \<Rightarrow>
          ConsoleError ''UPL: Tried to hook text fetch request but body is not a string!''
            (CallOriginal input ini settle)
      | Some (BodyText b) \<Rightarrow> text_pre_run (callback (Some b)) input ini Pending
      | None \<Rightarrow> text_pre_run (callback None) input ini Pending)"

definition hookTextPre ::
  "endpoint \<Rightarrow> HookTextPreCallback \<Rightarrow> module_state \<Rightarrow> (error + unit) \<times> module_state" where
  "hookTextPre ep callback s = hookPre ep (textPreCallback callback) s"

text \<open>Reading the store: an address out of range holds no response.\<close>

definition lookup :: "Response list \<Rightarrow> nat \<Rightarrow> Response option" where
  "lookup h a = (if a < length h then Some (h ! a) else None)"

text \<open>
  \<^verbatim>\<open>response.clone()\<close> makes a new object with the same status, headers and body;
  a \<^verbatim>\<open>text\<close> property assigned on the old object is not copied.
\<close>

definition clone :: "Response \<Rightarrow> Response" where
  "clone r = r\<lparr>text_fn := NativeText\<rparr>"

text \<open>
  The raw post-callback that \<^verbatim>\<open>hookTextPost\<close> registers: it clones the response
  it is handed, assigns the response's \<^verbatim>\<open>text\<close>, and calls \<^verbatim>\<open>original\<close>.
\<close>

definition textPostCallback :: "HookTextPostCallback \<Rightarrow> HookPostCallback" where
  "textPostCallback callback h a =
     (case lookup h a of
        None \<Rightarrow> PostThrow (TypeError ''response.clone is not a function'')
      | Some response \<Rightarrow>
          PostEffect
            (\<lambda>h' a'. (h' @ [clone response])[a' := response\<lparr>text_fn := HookedText (length h') callback\<rparr>])
            (PostNext PostReturn))"

definition hookTextPost ::
  "endpoint \<Rightarrow> HookTextPostCallback \<Rightarrow> module_state \<Rightarrow> (error + unit) \<times> module_state" where
  "hookTextPost ep callback s = hookPost ep (textPostCallback callback) s"

text \<open>
  \<^verbatim>\<open>response.text()\<close> as the caller of \<^verbatim>\<open>fetch\<close> calls it. The assigned method
  reads \<^verbatim>\<open>originalClone.text()\<close> and hands the text to the callback.
\<close>

definition response_text :: "Response list \<Rightarrow> nat \<Rightarrow> string outcome" where
  "response_text h a =
     (case lookup h a of
        None \<Rightarrow> Rejected (TypeError ''response.text is not a function'')
      | Some r \<Rightarrow>
          (case text_fn r of
             NativeText \<Rightarrow> Resolved (resp_body r)
           | HookedText oc callback \<Rightarrow>
               (case lookup h oc of
                  None \<Rightarrow> Rejected (TypeError ''originalClone.text is not a function'')
                | Some originalClone \<Rightarrow> callback (resp_body originalClone))))"

text \<open>A sequence of calls of the four public registration functions.\<close>

datatype registration =
    RegPre endpoint HookPreCallback
  | RegPost endpoint HookPostCallback
  | RegTextPre endpoint HookTextPreCallback
  | RegTextPost endpoint HookTextPostCallback

fun register :: "registration \<Rightarrow> module_state \<Rightarrow> (error + unit) \<times> module_state" where
  "register (RegPre ep cb) s = hookPre ep cb s"
| "register (RegPost ep cb) s = hookPost ep cb s"
| "register (RegTextPre ep cb) s = hookTextPre ep cb s"
| "register (RegTextPost ep cb) s = hookTextPost ep cb s"

text \<open>The state after the calls, made one after the other (a call that throws changes
  the state as far as it got).\<close>

fun register_all :: "registration list \<Rightarrow> module_state \<Rightarrow> module_state" where
  "register_all [] s = s"
| "register_all (c # cs) s = register_all cs (snd (register c s))"

subsection \<open>The pipeline: \<^verbatim>\<open>hookedFetch\<close>\<close>

text \<open>
  What one call of \<^verbatim>\<open>hookedFetch\<close> reads and writes: its variables
  \<^verbatim>\<open>input\<close> and \<^verbatim>\<open>init\<close> (the continuations assign them), the calls the real
  transport has received, in order, the console, and the store of response objects.
\<close>

record fetch_state =
  cur_input :: RequestInfo
  cur_init :: "RequestInit option"
  fetch_log :: "(RequestInfo \<times> RequestInit option) list"
  console :: "string list"
  heap :: "Response list"

definition empty_init :: RequestInit where
  "empty_init = \<lparr>init_method = None, init_headers = None, init_body = None, init_other = []\<rparr>"

text \<open>
  Lines 158 to 197: the URL string, the arguments the rest of the function works with,
  and what was written to the console; or the exception that ends the function there.
  A \<^verbatim>\<open>Headers\<close> object is truthy, so the test \<^verbatim>\<open>if (input.headers)\<close> always
  succeeds; a method is copied unless it is the empty string; a body is copied unless it
  is the empty string. \<^verbatim>\<open>input.clone()\<close> stands outside the \<^verbatim>\<open>try\<close>: for a
  request whose body has been used it throws, and \<^verbatim>\<open>hookedFetch\<close> rejects. Nothing
  else of the \<^verbatim>\<open>Request\<close> object reaches the rebuilt arguments.
\<close>

definition normalizeInput ::
  "RequestInfo \<Rightarrow> RequestInit option \<Rightarrow>
   error + (string \<times> RequestInfo \<times> RequestInit option \<times> string list)" where
  "normalizeInput input ini =
     (case input of
        InString u \<Rightarrow> Inr (u, input, ini, [])
      | InURL u \<Rightarrow> Inr (u, input, ini, [])
      | InRequest rq \<Rightarrow>
          (let i0 = (case ini of None \<Rightarrow> empty_init | Some i \<Rightarrow> i);
               i1 = i0\<lparr>init_headers := Some (req_headers rq)\<rparr>;
               i2 = (if req_method rq \<noteq> [] then i1\<lparr>init_method := Some (req_method rq)\<rparr> else i1)
           in if req_method rq \<noteq> ''GET'' \<and> req_method rq \<noteq> ''HEAD'' then
                (if req_bodyUsed rq then Inl (TypeError ''Request.clone: body has already been used'')
                 else
                   (case req_text rq of
                      Inr body \<Rightarrow>
                        Inr (req_url rq, InString (req_url rq),
                             Some (if body \<noteq> [] then i2\<lparr>init_body := Some (BodyText body)\<rparr> else i2), [])
                    | Inl e \<Rightarrow>
                        Inr (req_url rq, InString (req_url rq), Some i2,
                             [''UPL: Failed to get body from Request object''])))
              else Inr (req_url rq, InString (req_url rq), Some i2, []))
      | InOther u \<Rightarrow> Inr (u, input, ini, []))"

text \<open>One call \<^verbatim>\<open>_originalFetch(input, init)\<close>: the transport records what it receives.\<close>

definition originalFetch ::
  "transport \<Rightarrow> RequestInfo \<Rightarrow> RequestInit option \<Rightarrow> fetch_state \<Rightarrow> Response outcome \<times> fetch_state" where
  "originalFetch t input ini s = (t input ini, s\<lparr>fetch_log := fetch_log s @ [(input, ini)]\<rparr>)"

text \<open>
  \<^verbatim>\<open>callback(input, init, original)\<close>, along the callback's interactions.
  \<^verbatim>\<open>original(_input, _init)\<close> assigns the two variables and calls the real transport
  (lines 213 to 217).
\<close>

primrec run_pre_action :: "transport \<Rightarrow> pre_action \<Rightarrow> fetch_state \<Rightarrow> Response outcome \<times> fetch_state" where
  "run_pre_action t (CallOriginal input' ini' k) =
     (\<lambda>s. case originalFetch t input' ini' (s\<lparr>cur_input := input', cur_init := ini'\<rparr>) of
             (p, s') \<Rightarrow> run_pre_action t (k p) s')"
| "run_pre_action t (ConsoleError msg k) = (\<lambda>s. run_pre_action t k (s\<lparr>console := console s @ [msg]\<rparr>))"
| "run_pre_action t (Return r) = (\<lambda>s. (Resolved r, s))"
| "run_pre_action t (Throw e) = (\<lambda>s. (Rejected e, s))"
| "run_pre_action t Hang = (\<lambda>s. (Pending, s))"

text \<open>
  The loop of lines 210 to 221, with the promise chain run to its end.
  \<^verbatim>\<open>finalPromise.then(handler)\<close> runs the handler only when \<^verbatim>\<open>finalPromise\<close> is
  fulfilled (the handler ignores the response it is handed); a rejected promise passes its
  reason on, a pending one leaves the new promise pending. The handler reads
  \<^verbatim>\<open>input\<close> and \<^verbatim>\<open>init\<close> when it runs.
\<close>

fun run_pre_callbacks ::
  "transport \<Rightarrow> HookPreCallback list \<Rightarrow> Response outcome \<Rightarrow> fetch_state \<Rightarrow> Response outcome \<times> fetch_state" where
  "run_pre_callbacks t [] finalPromise s = (finalPromise, s)"
| "run_pre_callbacks t (callback # rest) finalPromise s =
     (case finalPromise of
        Resolved response \<Rightarrow>
          (case run_pre_action t (callback (cur_input s) (cur_init s)) s of
             (p, s') \<Rightarrow> run_pre_callbacks t rest p s')
      | Rejected e \<Rightarrow> run_pre_callbacks t rest (Rejected e) s
      | Pending \<Rightarrow> run_pre_callbacks t rest Pending s)"

text \<open>
  The post-callback chain. \<open>ps_index\<close> is the variable \<^verbatim>\<open>index\<close> that every call
  of \<^verbatim>\<open>applyNextPostCallback\<close> shares; \<open>ps_thrown\<close> is the exception that has left
  the chain, if any.
\<close>

record post_state =
  ps_heap :: "Response list"
  ps_index :: nat
  ps_thrown :: "error option"

text \<open>
  The callbacks run nested: \<^verbatim>\<open>original()\<close> inside callback \<open>i\<close> runs
  \<^verbatim>\<open>applyNextPostCallback\<close>, which runs the callback at \<^verbatim>\<open>index\<close> to its end
  before callback \<open>i\<close> goes on. The list of actions is the call stack: the steps left of
  the running callback first, then those of its callers. An exception unwinds the whole
  stack (the chain has no handler).
\<close>

function run_post :: "HookPostCallback list \<Rightarrow> nat \<Rightarrow> post_action list \<Rightarrow> post_state \<Rightarrow> post_state" where
  "run_post cbs a [] s = s"
| "run_post cbs a (PostReturn # stk) s = run_post cbs a stk s"
| "run_post cbs a (PostThrow e # stk) s = s\<lparr>ps_thrown := Some e\<rparr>"
| "run_post cbs a (PostEffect f k # stk) s = run_post cbs a (k # stk) (s\<lparr>ps_heap := f (ps_heap s) a\<rparr>)"
| "run_post cbs a (PostNext k # stk) s =
     (if ps_index s \<ge> length cbs then run_post cbs a (k # stk) s
      else run_post cbs a ((cbs ! ps_index s) (ps_heap s) a # k # stk) (s\<lparr>ps_index := Suc (ps_index s)\<rparr>))"
  by pat_completeness auto
termination
  by (relation "inv_image (less_than <*lex*> less_than)
        (\<lambda>(cbs, a, stk, s). (length cbs - ps_index s, size_list size stk))") auto

text \<open>
  \<^verbatim>\<open>applyNextPostCallback()\<close> as line 244 and line 270 call it, on the clone at
  address \<open>a\<close>. (The two copies of the function differ only in the value they return,
  which neither these calls nor \<^verbatim>\<open>nextOriginal\<close> use.)
\<close>

definition applyNextPostCallback :: "HookPostCallback list \<Rightarrow> nat \<Rightarrow> Response list \<Rightarrow> post_state" where
  "applyNextPostCallback cbs a h =
     run_post cbs a [PostNext PostReturn] \<lparr>ps_heap = h, ps_index = 0, ps_thrown = None\<rparr>"

text \<open>
  \<^verbatim>\<open>await\<close> of a promise of a response: the response object enters the store and
  the function goes on with its address; otherwise the function's own promise is rejected
  or stays pending.
\<close>

definition store_response :: "Response \<Rightarrow> fetch_state \<Rightarrow> nat \<times> fetch_state" where
  "store_response r s = (length (heap s), s\<lparr>heap := heap s @ [r]\<rparr>)"

text \<open>
  Lines 226 to 247 (\<open>with_pre = True\<close>, returning \<^verbatim>\<open>response\<close>) and lines 253 to 274
  (\<open>with_pre = False\<close>, returning \<^verbatim>\<open>clonedResponse\<close> when there are post-callbacks),
  from the response the promise was fulfilled with. An exception of a post-callback
  rejects the promise of \<^verbatim>\<open>hookedFetch\<close>.
\<close>

definition apply_post ::
  "bool \<Rightarrow> HookEntry \<Rightarrow> Response \<Rightarrow> fetch_state \<Rightarrow> nat outcome \<times> fetch_state" where
  "apply_post with_pre entry r s0 =
     (case store_response r s0 of
        (response, s) \<Rightarrow>
          if length (post_callback entry) > 0 then
            (case store_response (clone r) s of
               (clonedResponse, s1) \<Rightarrow>
                 (let ps = applyNextPostCallback (post_callback entry) clonedResponse (heap s1);
                      s2 = s1\<lparr>heap := ps_heap ps\<rparr>
                  in case ps_thrown ps of
                       Some e \<Rightarrow> (Rejected e, s2)
                     | None \<Rightarrow> (Resolved (if with_pre then response else clonedResponse), s2)))
          else (Resolved response, s))"

text \<open>
  \<^verbatim>\<open>hookedFetch\<close>: the state of the promise it returns (with the address of the
  response, when fulfilled), what the call has written, and the module's state afterwards
  (the lookup may have changed pattern objects).
\<close>

definition hookedFetch ::
  "transport \<Rightarrow> module_state \<Rightarrow> RequestInfo \<Rightarrow> RequestInit option \<Rightarrow>
   (nat outcome \<times> fetch_state) \<times> module_state" where
  "hookedFetch t m input0 ini0 =
     (case normalizeInput input0 ini0 of
        Inl e \<Rightarrow>
          ((Rejected e,
            \<lparr>cur_input = input0, cur_init = ini0, fetch_log = [], console = [], heap = []\<rparr>), m)
      | Inr (url, input, ini, msgs) \<Rightarrow>
          (let s0 = \<lparr>cur_input = input, cur_init = ini, fetch_log = [], console = msgs, heap = []\<rparr> in
           case findMatchingEntry m url of
             (None, m') \<Rightarrow>
               (case originalFetch t input ini s0 of
                  (Resolved r, s) \<Rightarrow> (case store_response r s of (a, s') \<Rightarrow> ((Resolved a, s'), m'))
                | (Rejected e, s) \<Rightarrow> ((Rejected e, s), m')
                | (Pending, s) \<Rightarrow> ((Pending, s), m'))
           | (Some entry, m') \<Rightarrow>
               if length (pre_callback entry) > 0 then
                 (case originalFetch t input ini s0 of
                    (seed, s1) \<Rightarrow>
                      (case run_pre_callbacks t (pre_callback entry) seed s1 of
                         (Resolved r, s) \<Rightarrow> (apply_post True entry r s, m')
                       | (Rejected e, s) \<Rightarrow> ((Rejected e, s), m')
                       | (Pending, s) \<Rightarrow> ((Pending, s), m')))
               else
                 (case originalFetch t input ini s0 of
                    (Resolved r, s) \<Rightarrow> (apply_post False entry r s, m')
                  | (Rejected e, s) \<Rightarrow> ((Rejected e, s), m')
                  | (Pending, s) \<Rightarrow> ((Pending, s), m'))))"

text \<open>
  What the caller of \<^verbatim>\<open>fetch\<close> holds in the end: the response object at the
  address returned, if any. (The address is in the store unless the effect of a
  post-callback has dropped objects from it.)
\<close>

definition returned_response :: "nat outcome \<times> fetch_state \<Rightarrow> Response outcome" where
  "returned_response res =
     (case fst res of
        Resolved a \<Rightarrow>
          (case lookup (heap (snd res)) a of
             Some r \<Rightarrow> Resolved r
           | None \<Rightarrow> Rejected (TypeError ''not a Response''))
      | Rejected e \<Rightarrow> Rejected e
      | Pending \<Rightarrow> Pending)"

subsection \<open>Predicates of the properties\<close>

text \<open>
  No two entries of the string table share a key, and no two entries of the pattern
  table share the string their patterns print as.
\<close>

definition unique_matchers :: "module_state \<Rightarrow> bool" where
  "unique_matchers s =
     (distinct (map fst (entriesText s)) \<and> distinct (map (\<lambda>x. rx_toString (fst x)) (entriesRegex s)))"

text \<open>
  The callback's run calls \<^verbatim>\<open>original\<close> never, and its promise ends in state
  \<open>p\<close>.
\<close>

primrec settles_with :: "pre_action \<Rightarrow> Response outcome \<Rightarrow> bool" where
  "settles_with (CallOriginal input ini k) p = False"
| "settles_with (ConsoleError msg k) p = settles_with k p"
| "settles_with (Return r) p = (p = Resolved r)"
| "settles_with (Throw e) p = (p = Rejected e)"
| "settles_with Hang p = (p = Pending)"

text \<open>The promise is rejected with a \<^verbatim>\<open>TypeError\<close>.\<close>

definition is_type_error :: "'a outcome \<Rightarrow> bool" where
  "is_type_error p = (case p of Rejected (TypeError msg) \<Rightarrow> True | _ \<Rightarrow> False)"

section \<open>Unfolding the model on concrete inputs\<close>

lemmas pipeline_defs = hookedFetch_def normalizeInput_def findMatchingEntry_def hookPre_def hookPost_def
  hookTextPre_def hookTextPost_def Once_trigger_def init_def initial_state_def push_pre_def
  push_post_def originalFetch_def settle_def apply_post_def store_response_def Let_def
  applyNextPostCallback_def textPostCallback_def textPreCallback_def lookup_def response_text_def
  clone_def returned_response_def same_pattern_def init_body_of_def set_body_def first_settled_def
  empty_init_def is_type_error_def RegExp_test_def

section \<open>The registry\<close>

subsection \<open>Installation\<close>

lemma Once_trigger_init_fired: "initOnce_fired (Once_trigger init s)"
  by (simp add: Once_trigger_def init_def)

lemma Once_trigger_init_installs:
  "installs (Once_trigger init s) = (if initOnce_fired s then installs s else Suc (installs s))"
  by (simp add: Once_trigger_def init_def)

lemma Once_trigger_init_window:
  "window_fetch (Once_trigger init s) = (if initOnce_fired s then window_fetch s else HookedFetch)"
  by (simp add: Once_trigger_def init_def)

lemma hookPre_gate:
  "initOnce_fired (snd (hookPre ep cb s)) = initOnce_fired (Once_trigger init s) \<and>
   installs (snd (hookPre ep cb s)) = installs (Once_trigger init s) \<and>
   window_fetch (snd (hookPre ep cb s)) = window_fetch (Once_trigger init s)"
  by (simp add: hookPre_def Let_def split: endpoint.split option.split)

lemma hookPost_gate:
  "initOnce_fired (snd (hookPost ep cb s)) = initOnce_fired (Once_trigger init s) \<and>
   installs (snd (hookPost ep cb s)) = installs (Once_trigger init s) \<and>
   window_fetch (snd (hookPost ep cb s)) = window_fetch (Once_trigger init s)"
  by (simp add: hookPost_def Let_def split: endpoint.split option.split)

lemma register_gate:
  "initOnce_fired (snd (register c s)) \<and>
   installs (snd (register c s)) = (if initOnce_fired s then installs s else Suc (installs s)) \<and>
   window_fetch (snd (register c s)) = (if initOnce_fired s then window_fetch s else HookedFetch)"
  by (cases c)
     (simp_all add: hookTextPre_def hookTextPost_def hookPre_gate hookPost_gate
        Once_trigger_init_fired Once_trigger_init_installs Once_trigger_init_window)

lemma register_all_installed:
  "initOnce_fired s \<Longrightarrow>
   initOnce_fired (register_all cs s) \<and> installs (register_all cs s) = installs s \<and>
   window_fetch (register_all cs s) = window_fetch s"
proof (induction cs arbitrary: s)
  case Nil
  then show ?case by simp
next
  case (Cons c cs)
  have fired: "initOnce_fired (snd (register c s))"
    using register_gate [of c s] by simp
  from Cons.IH [OF fired] register_gate [of c s] Cons.prems show ?case by simp
qed

text \<open>
  Claim C7. Whatever non-empty sequence of calls of \<^verbatim>\<open>hookPre\<close>,
  \<^verbatim>\<open>hookPost\<close>, \<^verbatim>\<open>hookTextPre\<close> and \<^verbatim>\<open>hookTextPost\<close> is made from the
  module's initial state, in any order and with any arguments, the assignment
  \<^verbatim>\<open>window.fetch = hookedFetch\<close> has run exactly once afterwards, the global
  transport is the hooked implementation, and further registrations do not run it again.
\<close>

theorem install_exactly_once:
  "regs \<noteq> [] \<Longrightarrow>
   installs (register_all regs initial_state) = 1 \<and>
   window_fetch (register_all regs initial_state) = HookedFetch \<and>
   installs (register_all (regs @ later) initial_state) = 1"
proof -
  assume "regs \<noteq> []"
  then obtain c cs where regs: "regs = c # cs" by (cases regs) auto
  let ?s1 = "snd (register c initial_state)"
  have g: "initOnce_fired ?s1 \<and> installs ?s1 = 1 \<and> window_fetch ?s1 = HookedFetch"
    using register_gate [of c initial_state] by (simp add: initial_state_def)
  from g register_all_installed [of ?s1 cs] register_all_installed [of ?s1 "cs @ later"]
  show ?thesis by (simp add: regs)
qed

theorem install_exactly_once_witness:
  "installs (register_all
      [RegTextPost (EpString ''/a'') (\<lambda>b. Resolved b), RegPre EpOther (\<lambda>i n. Hang),
       RegTextPre (EpString ''/a'') (\<lambda>b. TextReturn)] initial_state) = 1 \<and>
   window_fetch (register_all
      [RegTextPost (EpString ''/a'') (\<lambda>b. Resolved b), RegPre EpOther (\<lambda>i n. Hang),
       RegTextPre (EpString ''/a'') (\<lambda>b. TextReturn)] initial_state) = HookedFetch"
  using install_exactly_once
    [of "[RegTextPost (EpString ''/a'') (\<lambda>b. Resolved b), RegPre EpOther (\<lambda>i n. Hang),
       RegTextPre (EpString ''/a'') (\<lambda>b. TextReturn)]" "[]"]
  by simp

subsection \<open>One entry per matcher\<close>

lemma update_first_keys:
  "map (\<lambda>x. k (fst x)) (update_first P (\<lambda>x. (fst x, g (snd x))) xs) = map (\<lambda>x. k (fst x)) xs"
  by (induction xs) auto

lemma update_first_fst:
  "map fst (update_first P (\<lambda>x. (fst x, g (snd x))) xs) = map fst xs"
  by (induction xs) auto

lemma find_update_first:
  "find (same_pattern r) xs = Some x \<Longrightarrow>
   find (same_pattern r) (update_first (same_pattern r) (\<lambda>x. (fst x, g (snd x))) xs) = Some (fst x, g (snd x))"
  by (induction xs) (auto simp: same_pattern_def split: if_splits)

lemma Once_trigger_init_tables:
  "entriesText (Once_trigger init s) = entriesText s \<and>
   entriesRegex (Once_trigger init s) = entriesRegex s"
  by (simp add: Once_trigger_def init_def)

lemma hookPre_unique: "unique_matchers s \<Longrightarrow> unique_matchers (snd (hookPre ep cb s))"
  by (cases ep)
     (auto simp: unique_matchers_def hookPre_def Let_def Once_trigger_init_tables distinct_update
        update_first_keys find_None_iff same_pattern_def split: option.split)

lemma hookPost_unique: "unique_matchers s \<Longrightarrow> unique_matchers (snd (hookPost ep cb s))"
  by (cases ep)
     (auto simp: unique_matchers_def hookPost_def Let_def Once_trigger_init_tables distinct_update
        update_first_keys find_None_iff same_pattern_def split: option.split)

lemma register_unique: "unique_matchers s \<Longrightarrow> unique_matchers (snd (register c s))"
  by (cases c) (simp_all add: hookTextPre_def hookTextPost_def hookPre_unique hookPost_unique)

lemma register_all_unique: "unique_matchers s \<Longrightarrow> unique_matchers (register_all cs s)"
  by (induction cs arbitrary: s) (simp_all add: register_unique)

lemma initial_unique: "unique_matchers initial_state"
  by (simp add: unique_matchers_def initial_state_def)

lemma hookPre_text_append:
  "map_of (entriesText s) e = Some entry \<Longrightarrow>
   map fst (entriesText (snd (hookPre (EpString e) cb s))) = map fst (entriesText s) \<and>
   map_of (entriesText (snd (hookPre (EpString e) cb s))) e =
     Some (entry\<lparr>pre_callback := pre_callback entry @ [cb]\<rparr>) \<and>
   entriesRegex (snd (hookPre (EpString e) cb s)) = entriesRegex s"
  by (auto simp: hookPre_def Let_def Once_trigger_init_tables update_keys update_conv' push_pre_def
      dest: map_of_SomeD intro: rev_image_eqI)

lemma hookPost_text_append:
  "map_of (entriesText s) e = Some entry \<Longrightarrow>
   map fst (entriesText (snd (hookPost (EpString e) cb s))) = map fst (entriesText s) \<and>
   map_of (entriesText (snd (hookPost (EpString e) cb s))) e =
     Some (entry\<lparr>post_callback := post_callback entry @ [cb]\<rparr>) \<and>
   entriesRegex (snd (hookPost (EpString e) cb s)) = entriesRegex s"
  by (auto simp: hookPost_def Let_def Once_trigger_init_tables update_keys update_conv' push_post_def
      dest: map_of_SomeD intro: rev_image_eqI)

lemma hookPre_regex_append:
  "find (same_pattern r) (entriesRegex s) = Some (r0, entry) \<Longrightarrow>
   map fst (entriesRegex (snd (hookPre (EpRegExp r) cb s))) = map fst (entriesRegex s) \<and>
   find (same_pattern r) (entriesRegex (snd (hookPre (EpRegExp r) cb s))) =
     Some (r0, entry\<lparr>pre_callback := pre_callback entry @ [cb]\<rparr>) \<and>
   entriesText (snd (hookPre (EpRegExp r) cb s)) = entriesText s"
  using find_update_first [of r "entriesRegex s" "(r0, entry)" "push_pre cb"]
  by (simp add: hookPre_def Let_def Once_trigger_init_tables update_first_fst)
     (simp add: push_pre_def)

lemma hookPost_regex_append:
  "find (same_pattern r) (entriesRegex s) = Some (r0, entry) \<Longrightarrow>
   map fst (entriesRegex (snd (hookPost (EpRegExp r) cb s))) = map fst (entriesRegex s) \<and>
   find (same_pattern r) (entriesRegex (snd (hookPost (EpRegExp r) cb s))) =
     Some (r0, entry\<lparr>post_callback := post_callback entry @ [cb]\<rparr>) \<and>
   entriesText (snd (hookPost (EpRegExp r) cb s)) = entriesText s"
  using find_update_first [of r "entriesRegex s" "(r0, entry)" "push_post cb"]
  by (simp add: hookPost_def Let_def Once_trigger_init_tables update_first_fst)
     (simp add: push_post_def)

text \<open>
  Claim C8. After any sequence of registrations the string table has at most one entry
  per endpoint string and the pattern table at most one entry per printed pattern
  (patterns are compared by the string \<^verbatim>\<open>toString()\<close> returns, not as objects).
  Registering a callback for a matcher that has an entry leaves the tables' matchers as
  they are and appends the callback to that entry's list, after the callbacks registered
  before: for \<^verbatim>\<open>hookPre\<close> and \<^verbatim>\<open>hookPost\<close>, for a string and for a pattern.
\<close>

theorem one_entry_per_matcher:
  "unique_matchers (register_all regs initial_state) \<and>
   (map_of (entriesText s) e = Some entry \<longrightarrow>
      map fst (entriesText (snd (hookPre (EpString e) cb s))) = map fst (entriesText s) \<and>
      map_of (entriesText (snd (hookPre (EpString e) cb s))) e =
        Some (entry\<lparr>pre_callback := pre_callback entry @ [cb]\<rparr>) \<and>
      map fst (entriesText (snd (hookPost (EpString e) pcb s))) = map fst (entriesText s) \<and>
      map_of (entriesText (snd (hookPost (EpString e) pcb s))) e =
        Some (entry\<lparr>post_callback := post_callback entry @ [pcb]\<rparr>)) \<and>
   (find (same_pattern r) (entriesRegex s) = Some (r0, rentry) \<longrightarrow>
      map fst (entriesRegex (snd (hookPre (EpRegExp r) cb s))) = map fst (entriesRegex s) \<and>
      find (same_pattern r) (entriesRegex (snd (hookPre (EpRegExp r) cb s))) =
        Some (r0, rentry\<lparr>pre_callback := pre_callback rentry @ [cb]\<rparr>) \<and>
      map fst (entriesRegex (snd (hookPost (EpRegExp r) pcb s))) = map fst (entriesRegex s) \<and>
      find (same_pattern r) (entriesRegex (snd (hookPost (EpRegExp r) pcb s))) =
        Some (r0, rentry\<lparr>post_callback := post_callback rentry @ [pcb]\<rparr>))"
proof -
  have inv: "unique_matchers (register_all regs initial_state)"
    by (rule register_all_unique [OF initial_unique])
  show ?thesis
    using inv hookPre_text_append [of s e entry cb] hookPost_text_append [of s e entry pcb]
      hookPre_regex_append [of r s r0 rentry cb] hookPost_regex_append [of r s r0 rentry pcb]
    by blast
qed

theorem one_entry_per_matcher_witness:
  "unique_matchers
     (register_all
        [RegPre (EpString ''/a'') (\<lambda>i n. Hang),
         RegPost (EpRegExp \<lparr>rx_toString = ''/b/g'', rx_global = True, rx_sticky = False, rx_lastIndex = 0, rx_match = (\<lambda>u i. None)\<rparr>) (\<lambda>h a. PostReturn)]
        initial_state) \<and>
   map_of (entriesText
     (snd (hookPre (EpString ''/a'') (\<lambda>i n. Throw (Thrown ''x''))
        (register_all
          [RegPre (EpString ''/a'') (\<lambda>i n. Hang),
           RegPost (EpRegExp \<lparr>rx_toString = ''/b/g'', rx_global = True, rx_sticky = False, rx_lastIndex = 0, rx_match = (\<lambda>u i. None)\<rparr>) (\<lambda>h a. PostReturn)]
          initial_state)))) ''/a'' =
     Some \<lparr>pre_callback = [\<lambda>i n. Hang, \<lambda>i n. Throw (Thrown ''x'')], post_callback = []\<rparr> \<and>
   find (same_pattern \<lparr>rx_toString = ''/b/g'', rx_global = True, rx_sticky = False, rx_lastIndex = 3, rx_match = (\<lambda>u i. None)\<rparr>)
     (entriesRegex
       (snd (hookPost (EpRegExp \<lparr>rx_toString = ''/b/g'', rx_global = True, rx_sticky = False, rx_lastIndex = 3, rx_match = (\<lambda>u i. None)\<rparr>) (\<lambda>h a. PostThrow (Thrown ''y''))
          (register_all
            [RegPre (EpString ''/a'') (\<lambda>i n. Hang),
             RegPost (EpRegExp \<lparr>rx_toString = ''/b/g'', rx_global = True, rx_sticky = False, rx_lastIndex = 0, rx_match = (\<lambda>u i. None)\<rparr>) (\<lambda>h a. PostReturn)]
            initial_state)))) =
     Some (\<lparr>rx_toString = ''/b/g'', rx_global = True, rx_sticky = False, rx_lastIndex = 0, rx_match = (\<lambda>u i. None)\<rparr>,
           \<lparr>pre_callback = [], post_callback = [\<lambda>h a. PostReturn, \<lambda>h a. PostThrow (Thrown ''y'')]\<rparr>)"
  using one_entry_per_matcher
    [of "[RegPre (EpString ''/a'') (\<lambda>i n. Hang),
         RegPost (EpRegExp \<lparr>rx_toString = ''/b/g'', rx_global = True, rx_sticky = False, rx_lastIndex = 0, rx_match = (\<lambda>u i. None)\<rparr>) (\<lambda>h a. PostReturn)]"
        "register_all
          [RegPre (EpString ''/a'') (\<lambda>i n. Hang),
           RegPost (EpRegExp \<lparr>rx_toString = ''/b/g'', rx_global = True, rx_sticky = False, rx_lastIndex = 0, rx_match = (\<lambda>u i. None)\<rparr>) (\<lambda>h a. PostReturn)]
          initial_state"
        "''/a''"
        "\<lparr>pre_callback = [\<lambda>i n. Hang], post_callback = []\<rparr>"
        "\<lambda>i n. Throw (Thrown ''x'')" "\<lambda>h a. PostThrow (Thrown ''y'')"
        "\<lparr>rx_toString = ''/b/g'', rx_global = True, rx_sticky = False, rx_lastIndex = 3, rx_match = (\<lambda>u i. None)\<rparr>"
        "\<lparr>rx_toString = ''/b/g'', rx_global = True, rx_sticky = False, rx_lastIndex = 0, rx_match = (\<lambda>u i. None)\<rparr>"
        "\<lparr>pre_callback = [], post_callback = [\<lambda>h a. PostReturn]\<rparr>"]
  by (simp add: hookPre_def hookPost_def initial_state_def Once_trigger_def init_def Let_def
      same_pattern_def push_pre_def push_post_def)

subsection \<open>Resolution\<close>

text \<open>
  What holds of the lookup: an exact entry wins and no pattern is tested; without one,
  the entry found is that of the first pair, in the order of the array, whose test
  succeeds, and nothing is found exactly when every test fails. A new pattern is put at
  the end of the array, so the order of the array is the order of registration.
\<close>

lemma RegExp_test_toString: "rx_toString (snd (RegExp_test r u)) = rx_toString r"
  by (simp add: RegExp_test_def split: option.split)

lemma findMatchingEntry_exact:
  "map_of (entriesText s) url = Some e \<Longrightarrow> findMatchingEntry s url = (Some e, s)"
  by (simp add: findMatchingEntry_def)

lemma find_regex_None:
  "fst (find_regex url xs) = None \<longleftrightarrow> (\<forall>x \<in> set xs. \<not> fst (RegExp_test (fst x) url))"
  by (induction xs) (auto split: prod.splits)

lemma find_regex_first:
  "i < length xs \<Longrightarrow> fst (RegExp_test (fst (xs ! i)) url) \<Longrightarrow>
   (\<forall>j<i. \<not> fst (RegExp_test (fst (xs ! j)) url)) \<Longrightarrow>
   fst (find_regex url xs) = Some (snd (xs ! i))"
proof (induction xs arbitrary: i)
  case Nil
  then show ?case by simp
next
  case (Cons x xs)
  show ?case
  proof (cases i)
    case 0
    with Cons.prems show ?thesis by (auto split: prod.splits)
  next
    case (Suc k)
    with Cons.prems have head: "\<not> fst (RegExp_test (fst x) url)" by auto
    from Suc Cons.prems have "fst (find_regex url xs) = Some (snd (xs ! k))"
      by (intro Cons.IH) auto
    with head Suc show ?thesis by (auto split: prod.splits)
  qed
qed

lemma find_Some_member: "find P xs = Some x \<Longrightarrow> P x \<and> x \<in> set xs"
  by (induction xs) (auto split: if_splits)

lemma hookPre_regex_order:
  "map (\<lambda>x. rx_toString (fst x)) (entriesRegex (snd (hookPre (EpRegExp r) cb s))) =
     (if rx_toString r \<in> set (map (\<lambda>x. rx_toString (fst x)) (entriesRegex s))
      then map (\<lambda>x. rx_toString (fst x)) (entriesRegex s)
      else map (\<lambda>x. rx_toString (fst x)) (entriesRegex s) @ [rx_toString r])"
  by (auto simp: hookPre_def Let_def Once_trigger_init_tables update_first_keys find_None_iff
      same_pattern_def split: option.split dest!: find_Some_member intro: rev_image_eqI)

lemma hookPost_regex_order:
  "map (\<lambda>x. rx_toString (fst x)) (entriesRegex (snd (hookPost (EpRegExp r) cb s))) =
     (if rx_toString r \<in> set (map (\<lambda>x. rx_toString (fst x)) (entriesRegex s))
      then map (\<lambda>x. rx_toString (fst x)) (entriesRegex s)
      else map (\<lambda>x. rx_toString (fst x)) (entriesRegex s) @ [rx_toString r])"
  by (auto simp: hookPost_def Let_def Once_trigger_init_tables update_first_keys find_None_iff
      same_pattern_def split: option.split dest!: find_Some_member intro: rev_image_eqI)

text \<open>
  Claim C9, evaluated on the code. A test is made by \<^verbatim>\<open>RegExp.prototype.test\<close> on
  the stored pattern object, which for a pattern with the flag \<^verbatim>\<open>g\<close> or \<^verbatim>\<open>y\<close>
  starts at \<^verbatim>\<open>lastIndex\<close> and moves it. With \<^verbatim>\<open>/o/g\<close> registered, the first
  lookup of \<open>/o\<close> returns the entry; the second lookup of the same URL returns
  nothing, although the pattern matches the URL, and the second request goes to the
  transport with no pre-callback run.
\<close>

theorem stateful_pattern_second_lookup_misses:
  "fst (findMatchingEntry
     (snd (hookPre
        (EpRegExp \<lparr>rx_toString = ''/o/g'', rx_global = True, rx_sticky = False, rx_lastIndex = 0,
           rx_match = (\<lambda>u i. if CHR ''o'' \<in> set (drop i u)
              then Some (Suc (i + length (takeWhile (\<lambda>c. c \<noteq> CHR ''o'') (drop i u)))) else None)\<rparr>)
        (\<lambda>i n. Hang) initial_state)) ''/o'') =
     Some \<lparr>pre_callback = [\<lambda>i n. Hang], post_callback = []\<rparr> \<and>
   fst (findMatchingEntry
     (snd (findMatchingEntry
        (snd (hookPre
           (EpRegExp \<lparr>rx_toString = ''/o/g'', rx_global = True, rx_sticky = False, rx_lastIndex = 0,
              rx_match = (\<lambda>u i. if CHR ''o'' \<in> set (drop i u)
                 then Some (Suc (i + length (takeWhile (\<lambda>c. c \<noteq> CHR ''o'') (drop i u)))) else None)\<rparr>)
           (\<lambda>i n. Hang) initial_state)) ''/o'')) ''/o'') = None \<and>
   fetch_log (snd (fst (hookedFetch
     (\<lambda>i n. Resolved \<lparr>status = 200, resp_headers = [], resp_body = ''hello'', text_fn = NativeText\<rparr>)
     (snd (findMatchingEntry
        (snd (hookPre
           (EpRegExp \<lparr>rx_toString = ''/o/g'', rx_global = True, rx_sticky = False, rx_lastIndex = 0,
              rx_match = (\<lambda>u i. if CHR ''o'' \<in> set (drop i u)
                 then Some (Suc (i + length (takeWhile (\<lambda>c. c \<noteq> CHR ''o'') (drop i u)))) else None)\<rparr>)
           (\<lambda>i n. CallOriginal (InString ''/changed'') n settle) initial_state)) ''/o''))
     (InString ''/o'') None))) = [(InString ''/o'', None)]"
  by (simp add: pipeline_defs)

subsection \<open>An endpoint that is neither a string nor a RegExp\<close>

text \<open>
  Claim C10. \<^verbatim>\<open>hookPre\<close> and \<^verbatim>\<open>hookPost\<close> throw a \<^verbatim>\<open>TypeError\<close> for an
  endpoint that is neither a string nor a RegExp, after \<^verbatim>\<open>_initOnce.trigger()\<close> has
  run: the tables are as before the call, the trigger has fired, and if it had not fired
  before, the global transport is now the hooked implementation.
\<close>

theorem invalid_endpoint_throws_after_trigger:
  "fst (hookPre EpOther cb s) = Inl (TypeError ''Invalid endpoint type!'') \<and>
   fst (hookPost EpOther pcb s) = Inl (TypeError ''Invalid endpoint type!'') \<and>
   snd (hookPre EpOther cb s) = Once_trigger init s \<and>
   snd (hookPost EpOther pcb s) = Once_trigger init s \<and>
   initOnce_fired (Once_trigger init s) \<and>
   entriesText (Once_trigger init s) = entriesText s \<and>
   entriesRegex (Once_trigger init s) = entriesRegex s \<and>
   (\<not> initOnce_fired s \<longrightarrow>
      window_fetch (Once_trigger init s) = HookedFetch \<and>
      installs (Once_trigger init s) = Suc (installs s))"
  by (simp add: hookPre_def hookPost_def Let_def Once_trigger_def init_def)

theorem invalid_endpoint_throws_after_trigger_witness:
  "fst (hookPre EpOther (\<lambda>i n. Hang) initial_state) = Inl (TypeError ''Invalid endpoint type!'') \<and>
   window_fetch (snd (hookPre EpOther (\<lambda>i n. Hang) initial_state)) = HookedFetch \<and>
   installs (snd (hookPre EpOther (\<lambda>i n. Hang) initial_state)) = 1 \<and>
   entriesText (snd (hookPre EpOther (\<lambda>i n. Hang) initial_state)) = [] \<and>
   entriesRegex (snd (hookPre EpOther (\<lambda>i n. Hang) initial_state)) = []"
  using invalid_endpoint_throws_after_trigger [of "\<lambda>i n. Hang" initial_state "\<lambda>h a. PostReturn"]
  by (simp add: initial_state_def)

section \<open>The pipeline\<close>

subsection \<open>Facts about the pre-callback loop\<close>

lemma run_pre_callbacks_Rejected: "run_pre_callbacks t cbs (Rejected e) s = (Rejected e, s)"
  by (induction cbs) simp_all

lemma run_pre_callbacks_Pending: "run_pre_callbacks t cbs Pending s = (Pending, s)"
  by (induction cbs) simp_all

lemma settles_with_run:
  "settles_with a p \<Longrightarrow>
   fst (run_pre_action t a s) = p \<and>
   fetch_log (snd (run_pre_action t a s)) = fetch_log s \<and>
   cur_input (snd (run_pre_action t a s)) = cur_input s \<and>
   cur_init (snd (run_pre_action t a s)) = cur_init s \<and>
   heap (snd (run_pre_action t a s)) = heap s"
  by (induction a arbitrary: s) simp_all

lemma settles_with_settle: "settles_with (settle p) p"
  by (cases p) (simp_all add: settle_def)


lemma normalizeInput_plain:
  "(\<forall>rq. input0 \<noteq> InRequest rq) \<Longrightarrow> \<exists>u. normalizeInput input0 ini0 = Inr (u, input0, ini0, [])"
  by (cases input0) (auto simp: normalizeInput_def)

lemma normalizeInput_Request:
  "normalizeInput (InRequest rq) ini0 = Inr (url, input, ini, msgs) \<Longrightarrow>
   url = req_url rq \<and> input = InString (req_url rq) \<and>
   (\<exists>i. ini = Some i \<and> init_headers i = Some (req_headers rq) \<and>
        (req_method rq \<noteq> [] \<longrightarrow> init_method i = Some (req_method rq)) \<and>
        init_other i = init_other (case ini0 of None \<Rightarrow> empty_init | Some x \<Rightarrow> x))"
  by (auto simp: normalizeInput_def Let_def split: if_splits sum.splits)

subsection \<open>A request that resolves to no entry\<close>

text \<open>
  What holds when the normalized URL resolves to no entry: \<^verbatim>\<open>hookedFetch\<close> calls
  the real transport exactly once, with the normalized arguments, and what the caller
  gets is the state of that call's promise, unchanged; when \<^verbatim>\<open>input.clone()\<close>
  throws, the transport is not called and the promise is rejected with that exception.
  For an input that is not a \<^verbatim>\<open>Request\<close> object the normalized arguments are the
  caller's own. For a \<^verbatim>\<open>Request\<close> object they are its URL string and an
  \<^verbatim>\<open>init\<close> built from the caller's \<^verbatim>\<open>init\<close>, the object's headers and its
  method.
\<close>

lemma no_match_calls_transport_once:
  "(normalizeInput input0 ini0 = Inr (url, input, ini, msgs) \<and> fst (findMatchingEntry m url) = None \<longrightarrow>
      fetch_log (snd (fst (hookedFetch t m input0 ini0))) = [(input, ini)] \<and>
      returned_response (fst (hookedFetch t m input0 ini0)) = t input ini) \<and>
   (normalizeInput input0 ini0 = Inl e \<longrightarrow>
      fetch_log (snd (fst (hookedFetch t m input0 ini0))) = [] \<and>
      fst (fst (hookedFetch t m input0 ini0)) = Rejected e) \<and>
   ((\<forall>rq. input0 \<noteq> InRequest rq) \<longrightarrow> (\<exists>u. normalizeInput input0 ini0 = Inr (u, input0, ini0, []))) \<and>
   (input0 = InRequest rq \<and> normalizeInput input0 ini0 = Inr (url, input, ini, msgs) \<longrightarrow>
      url = req_url rq \<and> input = InString (req_url rq) \<and>
      (\<exists>i. ini = Some i \<and> init_headers i = Some (req_headers rq) \<and>
           (req_method rq \<noteq> [] \<longrightarrow> init_method i = Some (req_method rq)) \<and>
           init_other i = init_other (case ini0 of None \<Rightarrow> empty_init | Some x \<Rightarrow> x)))"
proof -
  have run: "fetch_log (snd (fst (hookedFetch t m input0 ini0))) = [(input, ini)] \<and>
      returned_response (fst (hookedFetch t m input0 ini0)) = t input ini"
    if norm: "normalizeInput input0 ini0 = Inr (url, input, ini, msgs)"
      and miss: "fst (findMatchingEntry m url) = None"
  proof -
    obtain m' where look: "findMatchingEntry m url = (None, m')"
      using miss by (cases "findMatchingEntry m url") simp
    show ?thesis
      by (cases "t input ini")
         (simp_all add: hookedFetch_def norm look originalFetch_def store_response_def
            returned_response_def lookup_def)
  qed
  have thrown: "fetch_log (snd (fst (hookedFetch t m input0 ini0))) = [] \<and>
      fst (fst (hookedFetch t m input0 ini0)) = Rejected e"
    if "normalizeInput input0 ini0 = Inl e"
    using that by (simp add: hookedFetch_def)
  from run thrown normalizeInput_plain [of input0 ini0]
    normalizeInput_Request [of rq ini0 url input ini msgs]
  show ?thesis by blast
qed


subsection \<open>A pre-callback that does not call its continuation\<close>

text \<open>
  Claim C1, as the code has it. Let the first pre-callback \<open>A\<close> never call
  \<^verbatim>\<open>original\<close>. Then the run of \<open>A\<close> makes no transport call. If the promise of
  \<open>A\<close> is rejected or never settles, no later pre-callback runs and the loop ends in
  that state with no transport call made. If the promise of \<open>A\<close> is fulfilled (a
  mocked response), the loop goes on: the next pre-callback \<open>B\<close> is called with the
  \<^verbatim>\<open>input\<close> and \<^verbatim>\<open>init\<close> that \<open>A\<close> was handed, and the rest of the loop
  runs from the promise of \<open>B\<close>.
\<close>

theorem pre_chain_short_circuit:
  assumes "settles_with (A (cur_input s) (cur_init s)) p"
  shows "fetch_log (snd (run_pre_action t (A (cur_input s) (cur_init s)) s)) = fetch_log s \<and>
    run_pre_callbacks t (A # B # rest) (Resolved r0) s =
      (case p of
         Resolved r \<Rightarrow>
           (case run_pre_action t (B (cur_input s) (cur_init s))
                   (snd (run_pre_action t (A (cur_input s) (cur_init s)) s)) of
              (q, s'') \<Rightarrow> run_pre_callbacks t rest q s'')
       | Rejected e \<Rightarrow> (Rejected e, snd (run_pre_action t (A (cur_input s) (cur_init s)) s))
       | Pending \<Rightarrow> (Pending, snd (run_pre_action t (A (cur_input s) (cur_init s)) s)))"
proof -
  let ?a = "A (cur_input s) (cur_init s)"
  obtain pa sa where run: "run_pre_action t ?a s = (pa, sa)" by (cases "run_pre_action t ?a s")
  from settles_with_run [OF assms, of t s] run
  have facts: "pa = p" "fetch_log sa = fetch_log s" "cur_input sa = cur_input s" "cur_init sa = cur_init s"
    by simp_all
  show ?thesis
    by (cases p) (simp_all add: run facts run_pre_callbacks_Rejected run_pre_callbacks_Pending)
qed

theorem pre_chain_short_circuit_witness:
  "settles_with
     ((\<lambda>i n. ConsoleError ''blocked'' (Throw (Thrown ''blocked''))) (InString ''/foo'') None)
     (Rejected (Thrown ''blocked'')) \<and>
   run_pre_callbacks
     (\<lambda>i n. Resolved \<lparr>status = 200, resp_headers = [], resp_body = ''hello'', text_fn = NativeText\<rparr>)
     [\<lambda>i n. ConsoleError ''blocked'' (Throw (Thrown ''blocked'')),
      \<lambda>i n. CallOriginal (InString ''/b'') n settle]
     (Resolved \<lparr>status = 200, resp_headers = [], resp_body = ''hello'', text_fn = NativeText\<rparr>)
     \<lparr>cur_input = InString ''/foo'', cur_init = None, fetch_log = [], console = [], heap = []\<rparr> =
   (Rejected (Thrown ''blocked''),
    \<lparr>cur_input = InString ''/foo'', cur_init = None, fetch_log = [], console = [''blocked''], heap = []\<rparr>)"
  using pre_chain_short_circuit
    [of "\<lambda>i n. ConsoleError ''blocked'' (Throw (Thrown ''blocked''))"
        "\<lparr>cur_input = InString ''/foo'', cur_init = None, fetch_log = [], console = [], heap = []\<rparr>"
        "Rejected (Thrown ''blocked'')"
        "\<lambda>i n. Resolved \<lparr>status = 200, resp_headers = [], resp_body = ''hello'', text_fn = NativeText\<rparr>"
        "\<lambda>i n. CallOriginal (InString ''/b'') n settle" "[]"
        "\<lparr>status = 200, resp_headers = [], resp_body = ''hello'', text_fn = NativeText\<rparr>"]
  by simp

text \<open>
  The claim as the specification states it fails: \<open>A\<close> returns a mocked response
  without calling its continuation, and the real transport still receives two calls, the
  second of them made by \<open>B\<close>.
\<close>

theorem short_circuit_counterexample:
  "fetch_log (snd (fst (hookedFetch
      (\<lambda>i n. Resolved \<lparr>status = 200, resp_headers = [], resp_body = ''hello'', text_fn = NativeText\<rparr>)
      (register_all
         [RegPre (EpString ''/foo'')
            (\<lambda>i n. Return \<lparr>status = 200, resp_headers = [], resp_body = ''mock'', text_fn = NativeText\<rparr>),
          RegPre (EpString ''/foo'') (\<lambda>i n. CallOriginal (InString ''/b'') n settle)]
         initial_state)
      (InString ''/foo'') None))) =
   [(InString ''/foo'', None), (InString ''/b'', None)]"
  by (simp add: pipeline_defs)

subsection \<open>Two pre-callbacks that each call their continuation once\<close>




subsection \<open>A text pre-hook on a body that is not a string\<close>

text \<open>
  Claim C6, as the code has it. When the request's body is present and not a string,
  the pre-callback registered by \<^verbatim>\<open>hookTextPre\<close> does not run the text callback: it
  writes an error to the console, calls \<^verbatim>\<open>original\<close> with the unmodified request,
  and its promise ends as the promise of that call does.
\<close>

theorem non_text_body_passes_through:
  assumes "init_body_of ini = Some (BodyOther b)"
  shows "run_pre_action t (textPreCallback callback input ini) s =
           (t input ini,
            s\<lparr>cur_input := input, cur_init := ini,
              fetch_log := fetch_log s @ [(input, ini)],
              console := console s @ [''UPL: Tried to hook text fetch request but body is not a string!'']\<rparr>)"
  using assms
  by (cases "t input ini") (simp_all add: textPreCallback_def originalFetch_def settle_def)

theorem non_text_body_passes_through_witness:
  "run_pre_action
      (\<lambda>i n. Rejected (Thrown ''offline''))
      (textPreCallback (\<lambda>body. TextThrow (Thrown ''never run'')) (InString ''/up'')
         (Some \<lparr>init_method = Some ''POST'', init_headers = None, init_body = Some (BodyOther [1, 2, 3]), init_other = []\<rparr>))
      \<lparr>cur_input = InString ''/up'',
       cur_init = Some \<lparr>init_method = Some ''POST'', init_headers = None, init_body = Some (BodyOther [1, 2, 3]), init_other = []\<rparr>,
       fetch_log = [], console = [], heap = []\<rparr> =
   (Rejected (Thrown ''offline''),
    \<lparr>cur_input = InString ''/up'',
     cur_init = Some \<lparr>init_method = Some ''POST'', init_headers = None, init_body = Some (BodyOther [1, 2, 3]), init_other = []\<rparr>,
     fetch_log = [(InString ''/up'', Some \<lparr>init_method = Some ''POST'', init_headers = None, init_body = Some (BodyOther [1, 2, 3]), init_other = []\<rparr>)],
     console = [''UPL: Tried to hook text fetch request but body is not a string!''], heap = []\<rparr>)"
  using non_text_body_passes_through
    [of "Some \<lparr>init_method = Some ''POST'', init_headers = None, init_body = Some (BodyOther [1, 2, 3]), init_other = []\<rparr>"
        "[1, 2, 3]"
        "\<lambda>i n. Rejected (Thrown ''offline'')"
        "\<lambda>body. TextThrow (Thrown ''never run'')" "InString ''/up''"
        "\<lparr>cur_input = InString ''/up'',
       cur_init = Some \<lparr>init_method = Some ''POST'', init_headers = None, init_body = Some (BodyOther [1, 2, 3]), init_other = []\<rparr>,
       fetch_log = [], console = [], heap = []\<rparr>"]
  by (simp add: init_body_of_def)

text \<open>
  The claim as the specification states it fails: with a binary body and a transport that
  answers, the callback's promise is fulfilled, not rejected with a type error, and so is
  the promise of \<^verbatim>\<open>hookedFetch\<close>.
\<close>

theorem non_text_body_counterexample:
  "\<not> is_type_error (fst (run_pre_action
      (\<lambda>i n. Resolved \<lparr>status = 200, resp_headers = [], resp_body = ''hello'', text_fn = NativeText\<rparr>)
      (textPreCallback (\<lambda>body. TextOriginal body TextReturn) (InString ''/up'')
         (Some \<lparr>init_method = Some ''POST'', init_headers = None, init_body = Some (BodyOther [1, 2, 3]), init_other = []\<rparr>))
      \<lparr>cur_input = InString ''/up'',
       cur_init = Some \<lparr>init_method = Some ''POST'', init_headers = None, init_body = Some (BodyOther [1, 2, 3]), init_other = []\<rparr>,
       fetch_log = [], console = [], heap = []\<rparr>)) \<and>
   returned_response (fst (hookedFetch
      (\<lambda>i n. Resolved \<lparr>status = 200, resp_headers = [], resp_body = ''hello'', text_fn = NativeText\<rparr>)
      (snd (hookTextPre (EpString ''/up'') (\<lambda>body. TextOriginal body TextReturn) initial_state))
      (InString ''/up'')
      (Some \<lparr>init_method = Some ''POST'', init_headers = None, init_body = Some (BodyOther [1, 2, 3]), init_other = []\<rparr>))) =
   Resolved \<lparr>status = 200, resp_headers = [], resp_body = ''hello'', text_fn = NativeText\<rparr>"
  by (simp add: pipeline_defs)

subsection \<open>The response returned when there are post-callbacks\<close>

text \<open>
  Claim C3, evaluated on the code. With a pass-through pre-callback and a text post-hook
  that replaces the body by \<open>HOOKED\<close> registered for \<open>/x\<close>, \<^verbatim>\<open>hookedFetch\<close>
  returns the original response (address 0), whose \<^verbatim>\<open>text()\<close> yields the transport's
  body; the clone the post-callback changed (address 1) is not returned. With the text
  post-hook alone, the clone is returned.
\<close>

theorem post_result_with_pre_is_original:
  "fst (fst (hookedFetch
      (\<lambda>i n. Resolved \<lparr>status = 200, resp_headers = [], resp_body = ''hello'', text_fn = NativeText\<rparr>)
      (register_all
         [RegPre (EpString ''/x'') (\<lambda>i n. CallOriginal i n settle),
          RegTextPost (EpString ''/x'') (\<lambda>body. Resolved ''HOOKED'')]
         initial_state)
      (InString ''/x'') None)) = Resolved 0 \<and>
   response_text (heap (snd (fst (hookedFetch
      (\<lambda>i n. Resolved \<lparr>status = 200, resp_headers = [], resp_body = ''hello'', text_fn = NativeText\<rparr>)
      (register_all
         [RegPre (EpString ''/x'') (\<lambda>i n. CallOriginal i n settle),
          RegTextPost (EpString ''/x'') (\<lambda>body. Resolved ''HOOKED'')]
         initial_state)
      (InString ''/x'') None)))) 0 = Resolved ''hello'' \<and>
   response_text (heap (snd (fst (hookedFetch
      (\<lambda>i n. Resolved \<lparr>status = 200, resp_headers = [], resp_body = ''hello'', text_fn = NativeText\<rparr>)
      (register_all
         [RegPre (EpString ''/x'') (\<lambda>i n. CallOriginal i n settle),
          RegTextPost (EpString ''/x'') (\<lambda>body. Resolved ''HOOKED'')]
         initial_state)
      (InString ''/x'') None)))) 1 = Resolved ''HOOKED'' \<and>
   fst (fst (hookedFetch
      (\<lambda>i n. Resolved \<lparr>status = 200, resp_headers = [], resp_body = ''hello'', text_fn = NativeText\<rparr>)
      (register_all [RegTextPost (EpString ''/x'') (\<lambda>body. Resolved ''HOOKED'')] initial_state)
      (InString ''/x'') None)) = Resolved 1 \<and>
   response_text (heap (snd (fst (hookedFetch
      (\<lambda>i n. Resolved \<lparr>status = 200, resp_headers = [], resp_body = ''hello'', text_fn = NativeText\<rparr>)
      (register_all [RegTextPost (EpString ''/x'') (\<lambda>body. Resolved ''HOOKED'')] initial_state)
      (InString ''/x'') None)))) 1 = Resolved ''HOOKED''"
  by (simp add: pipeline_defs)

subsection \<open>Identity text hooks\<close>

lemma identity_text_pre_run:
  "run_pre_action t (textPreCallback (\<lambda>body. TextOriginal body TextReturn) input ini) s =
     (t input ini,
      (if (\<exists>b. init_body_of ini = Some (BodyOther b))
       then s\<lparr>console := console s @ [''UPL: Tried to hook text fetch request but body is not a string!'']\<rparr>
       else s)\<lparr>cur_input := input, cur_init := ini, fetch_log := fetch_log s @ [(input, ini)]\<rparr>)"
proof (cases "init_body_of ini")
  case None
  then show ?thesis
    by (cases "t input ini")
       (simp_all add: textPreCallback_def originalFetch_def settle_def set_body_def first_settled_def)
next
  case (Some bd)
  show ?thesis
  proof (cases bd)
    case (BodyText b)
    with Some obtain i where ini: "ini = Some i" "init_body i = Some (BodyText b)"
      by (cases ini) (simp_all add: init_body_of_def)
    have "i\<lparr>init_body := Some (BodyText b)\<rparr> = i" using ini(2) by simp
    then have sb: "set_body (Some b) ini = ini" by (simp add: set_body_def ini)
    show ?thesis using Some BodyText
      by (cases "t input ini")
         (simp_all add: textPreCallback_def originalFetch_def settle_def sb first_settled_def)
  next
    case (BodyOther b)
    with Some show ?thesis
      by (cases "t input ini") (simp_all add: textPreCallback_def originalFetch_def settle_def)
  qed
qed

lemma identity_text_pre_facts:
  "fst (run_pre_action t (textPreCallback (\<lambda>body. TextOriginal body TextReturn) input ini) s) = t input ini \<and>
   fetch_log (snd (run_pre_action t (textPreCallback (\<lambda>body. TextOriginal body TextReturn) input ini) s)) =
     fetch_log s @ [(input, ini)] \<and>
   heap (snd (run_pre_action t (textPreCallback (\<lambda>body. TextOriginal body TextReturn) input ini) s)) = heap s"
  by (simp add: identity_text_pre_run)

lemma identity_text_post_run:
  "applyNextPostCallback [textPostCallback cb] (Suc 0) [r, c] =
     \<lparr>ps_heap = [r, c\<lparr>text_fn := HookedText 2 cb\<rparr>, clone c], ps_index = Suc 0, ps_thrown = None\<rparr>"
  by (simp add: applyNextPostCallback_def textPostCallback_def lookup_def)

lemma apply_post_text:
  assumes "heap s = []" and "post_callback entry = [textPostCallback cb]"
  shows "apply_post with_pre entry r s =
           (Resolved (if with_pre then 0 else 1),
            s\<lparr>heap := [r, (clone r)\<lparr>text_fn := HookedText 2 cb\<rparr>, clone (clone r)]\<rparr>)"
  using assms by (simp add: apply_post_def store_response_def identity_text_post_run)

lemma identity_text_hooks_log:
  assumes norm: "normalizeInput input0 ini0 = Inr (url, input, ini, msgs)"
      and hit: "findMatchingEntry m url = (Some entry, m')"
      and pre: "pre_callback entry = [textPreCallback (\<lambda>body. TextOriginal body TextReturn)]"
      and post: "post_callback entry = [textPostCallback (\<lambda>body. Resolved body)]"
  shows "fetch_log (snd (fst (hookedFetch t m input0 ini0))) =
           (input, ini) # (case t input ini of Resolved r \<Rightarrow> [(input, ini)] | Rejected e \<Rightarrow> [] | Pending \<Rightarrow> []) \<and>
         returned_response (fst (hookedFetch t m input0 ini0)) = t input ini"
proof -
  let ?s1 = "\<lparr>cur_input = input, cur_init = ini, fetch_log = [(input, ini)], console = msgs, heap = []\<rparr>"
  let ?cb = "textPreCallback (\<lambda>body. TextOriginal body TextReturn)"
  have unfold: "fst (hookedFetch t m input0 ini0) =
      (case run_pre_callbacks t [?cb] (t input ini) ?s1 of
         (Resolved r, s) \<Rightarrow> apply_post True entry r s
       | (Rejected e, s) \<Rightarrow> (Rejected e, s)
       | (Pending, s) \<Rightarrow> (Pending, s))"
    by (simp add: hookedFetch_def norm hit pre originalFetch_def Let_def
        split: prod.split outcome.split)
  show ?thesis
  proof (cases "t input ini")
    case (Resolved r')
    obtain p sA where run: "run_pre_action t (?cb input ini) ?s1 = (p, sA)"
      by (cases "run_pre_action t (?cb input ini) ?s1")
    from identity_text_pre_facts [of t input ini ?s1] run Resolved
    have facts: "p = Resolved r'" "fetch_log sA = [(input, ini), (input, ini)]" "heap sA = []"
      by simp_all
    have "fst (hookedFetch t m input0 ini0) = apply_post True entry r' sA"
      by (simp add: unfold Resolved run facts)
    also have "\<dots> = (Resolved 0,
        sA\<lparr>heap := [r', (clone r')\<lparr>text_fn := HookedText 2 (\<lambda>body. Resolved body)\<rparr>, clone (clone r')]\<rparr>)"
      using apply_post_text [OF facts(3) post, of True r'] by simp
    finally show ?thesis
      by (simp add: Resolved facts returned_response_def lookup_def)
  next
    case (Rejected e)
    then show ?thesis
      by (simp add: unfold run_pre_callbacks_Rejected returned_response_def)
  next
    case Pending
    then show ?thesis
      by (simp add: unfold run_pre_callbacks_Pending returned_response_def)
  qed
qed

text \<open>
  Claim C4, evaluated on the code. With the identity text hooks
  \<^verbatim>\<open>hookTextPre(url, (body, orig) => orig(body))\<close> and
  \<^verbatim>\<open>hookTextPost(url, (body, orig) => orig(body))\<close> registered for \<open>/x\<close>, a POST
  of \<open>ping\<close> to \<open>/x\<close> reaches the real transport twice, once from the call of line
  207 and once from the callback's \<^verbatim>\<open>original\<close>; with no hook registered the same
  request reaches it once.
\<close>

theorem identity_text_hooks_send_twice:
  "fetch_log (snd (fst (hookedFetch
      (\<lambda>i n. Resolved \<lparr>status = 200, resp_headers = [], resp_body = ''pong'', text_fn = NativeText\<rparr>)
      (register_all
         [RegTextPre (EpString ''/x'') (\<lambda>body. TextOriginal body TextReturn),
          RegTextPost (EpString ''/x'') (\<lambda>body. Resolved body)] initial_state)
      (InString ''/x'')
      (Some \<lparr>init_method = Some ''POST'', init_headers = None, init_body = Some (BodyText ''ping''), init_other = []\<rparr>)))) =
     [(InString ''/x'',
       Some \<lparr>init_method = Some ''POST'', init_headers = None, init_body = Some (BodyText ''ping''), init_other = []\<rparr>),
      (InString ''/x'',
       Some \<lparr>init_method = Some ''POST'', init_headers = None, init_body = Some (BodyText ''ping''), init_other = []\<rparr>)] \<and>
   fetch_log (snd (fst (hookedFetch
      (\<lambda>i n. Resolved \<lparr>status = 200, resp_headers = [], resp_body = ''pong'', text_fn = NativeText\<rparr>)
      initial_state
      (InString ''/x'')
      (Some \<lparr>init_method = Some ''POST'', init_headers = None, init_body = Some (BodyText ''ping''), init_other = []\<rparr>)))) =
     [(InString ''/x'',
       Some \<lparr>init_method = Some ''POST'', init_headers = None, init_body = Some (BodyText ''ping''), init_other = []\<rparr>)]"
  by (simp add: pipeline_defs)

end
